theory Spec2Isabelle
  imports Complex_Main
begin

section \<open>The AliveCor content-stream scan of \<open>pdf2bsml/AliveCor/ecg2bsml.py\<close>\<close>

text \<open>
  The development embeds \<open>GraphicsMap\<close> and \<open>ECG_PDF._scan\<close>. Conventions:

  \<^item> A Python number is an \<open>int\<close> or a \<open>float\<close>; both are kept (\<open>PyInt\<close>, \<open>PyFloat\<close>).
    A float is modelled by the real number it denotes and float arithmetic by real
    arithmetic, so rounding, infinities and NaN are outside the model (arithmetic on
    floats raises nothing). The conversion of an \<open>int\<close> to a float does raise, for an
    \<open>int\<close> beyond the float range, and that is modelled. The literal \<open>0.4\<close> of the source
    and the operand \<open>0.4\<close> of a stream denote the same value.
  \<^item> The loop header \<open>for d in data.split()\<close> with its \<open>int(d)\<close>/\<open>float(d)\<close> attempts is
    the token type: \<open>Num v\<close> is a word for which one of the two conversions returned
    \<open>v\<close>, \<open>Op d\<close> a word for which both raised \<open>ValueError\<close>.
  \<^item> The local variables of \<open>_scan\<close> are the fields of \<open>scan_state\<close>, under their own names
    (\<open>times\<close> is \<open>times_list\<close>, since \<open>times\<close> is HOL's multiplication).
  \<^item> An exception that leaves \<open>_scan\<close> is a value \<open>Inl e\<close>; \<open>assert\<close> statements are
    executed (the interpreter runs without \<open>-O\<close>).
\<close>

subsection \<open>Numbers, tokens and exceptions\<close>

datatype number = PyInt int | PyFloat real

text \<open>
  The value of a number. Python compares an \<open>int\<close> with a float (\<open>==\<close>) by value and
  exactly, without converting.
\<close>

fun num_val :: "number \<Rightarrow> real" where
  "num_val (PyInt i) = of_int i"
| "num_val (PyFloat r) = r"

text \<open>
  \<open>float(v)\<close>, and the conversion of an \<open>int\<close> operand of \<open>*\<close> or \<open>+\<close> whose other operand
  is a float, raise \<open>OverflowError\<close> (int too large to convert to float) when the \<open>int\<close>,
  rounded to 53 bits, exceeds the largest double: from \<open>2 ^ 1024 - 2 ^ 970\<close> on.
\<close>

definition float_int_limit :: int where
  "float_int_limit = 2 ^ 1024 - 2 ^ 970"

fun in_float_range :: "number \<Rightarrow> bool" where
  "in_float_range (PyInt i) = (\<bar>i\<bar> < float_int_limit)"
| "in_float_range (PyFloat r) = True"

datatype token = Num number | Op string

datatype error = IndexError | AssertionError | TypeError | OverflowError

definition POINTS2MM :: real where
  "POINTS2MM = 25.4 / 72.0"

definition T_scale :: real where
  "T_scale = 25.0"

definition V_scale :: real where
  "V_scale = 10.0"

subsection \<open>\<open>GraphicsMap\<close>\<close>

text \<open>\<open>self._matrix = [Sx, Sy, Tx, Ty]\<close>, with the defaults of \<open>__init__\<close>.\<close>

record GraphicsMap =
  Sx :: number
  Sy :: number
  Tx :: number
  Ty :: number

definition GraphicsMap_init :: GraphicsMap where
  "GraphicsMap_init = \<lparr>Sx = PyInt 1, Sy = PyInt 1, Tx = PyInt 0, Ty = PyInt 0\<rparr>"

text \<open>
  \<open>GraphicsMap.map\<close> on a point of two numbers: \<open>float(Sx) * x + Tx\<close> and
  \<open>float(Sy) * y + Ty\<close>. Each of the six numbers is converted to a float on the way
  (the matrix entries are stored as the operands of \<open>cm\<close> were), so the call raises
  \<open>OverflowError\<close> when one of them is an \<open>int\<close> beyond the float range.
\<close>

definition map_point :: "GraphicsMap \<Rightarrow> number \<times> number \<Rightarrow> error + real \<times> real" where
  "map_point g p =
     (if in_float_range (Sx g) \<and> in_float_range (fst p) \<and> in_float_range (Tx g)
         \<and> in_float_range (Sy g) \<and> in_float_range (snd p) \<and> in_float_range (Ty g)
      then Inr (num_val (Sx g) * num_val (fst p) + num_val (Tx g),
                num_val (Sy g) * num_val (snd p) + num_val (Ty g))
      else Inl OverflowError)"

subsection \<open>The state of the scan\<close>

record scan_state =
  stage :: int
  level :: int
  intext :: bool
  params :: "number list"
  transform :: GraphicsMap
  graphicstate :: "GraphicsMap list"
  linestate :: int
  X_min :: "real option"
  X_max :: "real option"
  T_width :: "real option"
  t_start :: "real option"
  subtrace :: int
  origins_trace :: "real list"
  origins_beats :: "real list"
  times_list :: "real list"
  trace :: "real list"
  beats :: "real list"

definition scan_init :: scan_state where
  "scan_init =
     \<lparr>stage = 0, level = 0, intext = False, params = [],
      transform = GraphicsMap_init, graphicstate = [], linestate = 0,
      X_min = None, X_max = None, T_width = None, t_start = None,
      subtrace = - 1, origins_trace = [], origins_beats = [],
      times_list = [], trace = [], beats = []\<rparr>"

text \<open>
  Python's \<open>xs[i]\<close>: an index below zero counts from the end, and an index outside
  \<open>-len(xs) .. len(xs) - 1\<close> raises \<open>IndexError\<close> (here \<open>None\<close>).
\<close>

definition py_index :: "'a list \<Rightarrow> int \<Rightarrow> 'a option" where
  "py_index xs i =
     (if 0 \<le> i \<and> i < int (length xs) then Some (xs ! nat i)
      else if i < 0 \<and> - int (length xs) \<le> i then Some (xs ! nat (int (length xs) + i))
      else None)"

subsection \<open>The operators\<close>

text \<open>\<open>q\<close>: lines 228 to 232.\<close>

definition op_q :: "scan_state \<Rightarrow> error + scan_state" where
  "op_q s =
     Inr (s\<lparr>graphicstate := graphicstate s @ [transform s],
            transform := GraphicsMap_init,
            stage := (if level s = 0 then stage s + 1 else stage s),
            level := level s + 1\<rparr>)"

text \<open>\<open>Q\<close>: lines 234 to 237; \<open>list.pop()\<close> of an empty list raises \<open>IndexError\<close>.\<close>

definition op_Q :: "scan_state \<Rightarrow> error + scan_state" where
  "op_Q s =
     (if graphicstate s = [] then Inl IndexError
      else Inr (s\<lparr>transform := last (graphicstate s),
                 graphicstate := butlast (graphicstate s),
                 linestate := (if linestate s \<noteq> 0 then linestate s + 1 else linestate s),
                 level := level s - 1\<rparr>))"

text \<open>\<open>cm\<close>: lines 245 to 247; \<open>params[1:3]\<close> is \<open>take 2 (drop 1 params)\<close>.\<close>

definition op_cm :: "scan_state \<Rightarrow> error + scan_state" where
  "op_cm s =
     (if length (params s) = 6 \<and> map num_val (take 2 (drop 1 (params s))) = [0, 0]
      then Inr (s\<lparr>transform :=
                   \<lparr>Sx = params s ! 0, Sy = params s ! 3,
                    Tx = params s ! 4, Ty = params s ! 5\<rparr>\<rparr>)
      else Inl AssertionError)"

text \<open>\<open>w\<close>: lines 249 to 265.\<close>

definition op_w :: "scan_state \<Rightarrow> error + scan_state" where
  "op_w s =
     (if length (params s) \<noteq> 1 then Inl AssertionError
      else let w = num_val (params s ! 0) in
        if stage s = 2 then
          (if w = 0.4 then Inr (s\<lparr>linestate := 1\<rparr>)
           else if w = 0.3 then Inr (s\<lparr>linestate := 11\<rparr>)
           else Inr s)
        else if stage s = 3 then
          (if w = 1.5 then Inr (s\<lparr>linestate := 21\<rparr>)
           else if w = 0.4 then Inr (s\<lparr>subtrace := subtrace s + 1, linestate := 22\<rparr>)
           else if w = 0.6 then Inr (s\<lparr>linestate := 23\<rparr>)
           else Inr s)
        else Inr s)"

text \<open>\<open>trace.append(y - origins_trace[subtrace])\<close>: lines 283 and 296.\<close>

definition trace_append :: "real \<Rightarrow> scan_state \<Rightarrow> error + scan_state" where
  "trace_append y s =
     (case py_index (origins_trace s) (subtrace s) of
        None \<Rightarrow> Inl IndexError
      | Some origin \<Rightarrow> Inr (s\<lparr>trace := trace s @ [y - origin]\<rparr>))"

text \<open>
  \<open>m\<close>: lines 267 to 285. The point is mapped (line 269) whatever the role is.
  Subtracting \<open>None\<close> from a float, or a float from \<open>None\<close>, raises \<open>TypeError\<close>.
\<close>

definition op_m :: "scan_state \<Rightarrow> error + scan_state" where
  "op_m s =
     (case params s of
        [a, b] \<Rightarrow>
          (case map_point (transform s) (a, b) of
             Inl e \<Rightarrow> Inl e
           | Inr (x, y) \<Rightarrow>
           if linestate s = 1 then Inr (s\<lparr>X_min := Some x\<rparr>)
           else if linestate s = 2 then Inr (s\<lparr>origins_beats := origins_beats s @ [y]\<rparr>)
           else if linestate s = 12 then Inr (s\<lparr>origins_trace := origins_trace s @ [y]\<rparr>)
           else if linestate s = 22 then
             (case t_start s of
                None \<Rightarrow>
                  trace_append y (s\<lparr>t_start := Some x, times_list := times_list s @ [0]\<rparr>)
              | Some t \<Rightarrow>
                  (case T_width s of
                     None \<Rightarrow> Inl TypeError
                   | Some tw \<Rightarrow>
                       trace_append y
                         (s\<lparr>t_start := Some (t - tw),
                            times_list := times_list s @ [x - (t - tw)]\<rparr>)))
           else if linestate s \<ge> 23 then
             (case t_start s of
                None \<Rightarrow> Inl TypeError
              | Some t \<Rightarrow> Inr (s\<lparr>beats := beats s @ [x - t]\<rparr>))
           else Inr s)
      | _ \<Rightarrow> Inl AssertionError)"

text \<open>\<open>l\<close>: lines 287 to 296; the point is mapped at line 289.\<close>

definition op_l :: "scan_state \<Rightarrow> error + scan_state" where
  "op_l s =
     (case params s of
        [a, b] \<Rightarrow>
          (case map_point (transform s) (a, b) of
             Inl e \<Rightarrow> Inl e
           | Inr (x, y) \<Rightarrow>
           if linestate s = 1 then
             (case T_width s of
                None \<Rightarrow>
                  (case X_min s of
                     None \<Rightarrow> Inl TypeError
                   | Some xmin \<Rightarrow> Inr (s\<lparr>X_max := Some x, T_width := Some (x - xmin)\<rparr>))
              | Some tw \<Rightarrow> Inr s)
           else if linestate s = 22 then
             (case t_start s of
                None \<Rightarrow> Inl TypeError
              | Some t \<Rightarrow> trace_append y (s\<lparr>times_list := times_list s @ [x - t]\<rparr>))
           else Inr s)
      | _ \<Rightarrow> Inl AssertionError)"

text \<open>The \<open>if\<close>/\<open>elif\<close> chain on the operator word; a word of no branch does nothing.\<close>

definition operator :: "string \<Rightarrow> scan_state \<Rightarrow> error + scan_state" where
  "operator d s =
     (if d = ''q'' then op_q s
      else if d = ''Q'' then op_Q s
      else if d = ''BT'' then Inr (s\<lparr>intext := True\<rparr>)
      else if d = ''ET'' then Inr (s\<lparr>intext := False\<rparr>)
      else if d = ''cm'' then op_cm s
      else if d = ''w'' then op_w s
      else if d = ''m'' then op_m s
      else if d = ''l'' then op_l s
      else Inr s)"

text \<open>
  One pass of the loop body: a number is appended to \<open>params\<close> (and the pass ends with
  \<open>continue\<close>); an operator is executed and \<open>params\<close> is emptied (line 298).
\<close>

fun step :: "scan_state \<Rightarrow> token \<Rightarrow> error + scan_state" where
  "step s (Num v) = Inr (s\<lparr>params := params s @ [v]\<rparr>)"
| "step s (Op d) =
     (case operator d s of
        Inl e \<Rightarrow> Inl e
      | Inr s' \<Rightarrow> Inr (s'\<lparr>params := []\<rparr>))"

text \<open>The loop: the first exception ends it.\<close>

fun run :: "scan_state \<Rightarrow> token list \<Rightarrow> error + scan_state" where
  "run s [] = Inr s"
| "run s (tk # tks) =
     (case step s tk of
        Inl e \<Rightarrow> Inl e
      | Inr s' \<Rightarrow> run s' tks)"

subsection \<open>The results\<close>

text \<open>
  Lines 300 to 305: \<open>self.ecg\<close> and \<open>self.beats\<close>, each array multiplied in place by a
  scalar.
\<close>

record ECG_PDF =
  self_ecg :: "real list \<times> real list"
  self_beats :: "real list"

definition finalize :: "scan_state \<Rightarrow> ECG_PDF" where
  "finalize s =
     \<lparr>self_ecg = (map (\<lambda>t. t * (POINTS2MM / T_scale)) (times_list s),
                  map (\<lambda>v. v * (POINTS2MM / V_scale)) (trace s)),
      self_beats = map (\<lambda>t. t * (POINTS2MM / T_scale)) (beats s)\<rparr>"

definition scan :: "token list \<Rightarrow> error + ECG_PDF" where
  "scan tks =
     (case run scan_init tks of
        Inl e \<Rightarrow> Inl e
      | Inr s \<Rightarrow> Inr (finalize s))"

subsection \<open>A page of the documented shape\<close>

text \<open>
  A stream with the block structure of the class docstring, used as the concrete input
  of examples: the empty stage 1 block; in stage 2 the border (\<open>0.4 w\<close>, from \<open>(0, 0)\<close>
  to \<open>(100, 0)\<close>), then \<open>0.3 w\<close>, the vertical grid block and a trace grid with origins
  50 and 80; in stage 3 one trace block (\<open>0.4 w\<close>, from \<open>(10, 60)\<close> to \<open>(20, 65)\<close>) and the
  declaration \<open>0.6 w\<close> of the beat markers.
\<close>

definition example_page :: "token list" where
  "example_page =
     [Op ''q'', Op ''Q'',
      Op ''q'',
        Num (PyFloat 0.4), Op ''w'',
        Op ''q'', Num (PyInt 0), Num (PyInt 0), Op ''m'',
                  Num (PyInt 100), Num (PyInt 0), Op ''l'', Op ''S'', Op ''Q'',
        Num (PyFloat 0.3), Op ''w'',
        Op ''q'', Op ''Q'',
        Op ''q'', Num (PyInt 0), Num (PyInt 50), Op ''m'',
                  Num (PyInt 0), Num (PyInt 80), Op ''m'', Op ''S'', Op ''Q'',
      Op ''Q'',
      Op ''q'',
        Num (PyFloat 0.4), Op ''w'',
        Op ''q'', Num (PyInt 10), Num (PyInt 60), Op ''m'',
                  Num (PyInt 20), Num (PyInt 65), Op ''l'', Op ''S'', Op ''Q'',
        Num (PyFloat 0.6), Op ''w'']"

section \<open>Properties\<close>

subsection \<open>Evaluation and the loop\<close>

text \<open>The operands of the examples are far inside the float range.\<close>

lemma small_int_in_float_range [simp]:
  "i \<le> 4294967296 \<Longrightarrow> (i < float_int_limit) = True"
  by (simp add: float_int_limit_def)

lemmas scan_eval =
  scan_init_def operator_def op_q_def op_Q_def op_cm_def op_w_def op_m_def op_l_def
  trace_append_def py_index_def map_point_def GraphicsMap_init_def Let_def butlast_append

lemma run_append:
  "run s (xs @ ys) = (case run s xs of Inl e \<Rightarrow> Inl e | Inr s' \<Rightarrow> run s' ys)"
  by (induction xs arbitrary: s) (auto split: sum.splits)

lemma run_prefix_ok:
  assumes "run s tks = Inr s'"
  shows "\<exists>s1. run s (take n tks) = Inr s1 \<and> run s1 (drop n tks) = Inr s'"
proof -
  have "run s (take n tks @ drop n tks) = Inr s'"
    using assms by simp
  then show ?thesis
    unfolding run_append by (auto split: sum.splits)
qed

text \<open>The stage 1 block \<open>q Q\<close> of a page, scanned from the start.\<close>

lemma run_stage1_block:
  "run scan_init [Op ''q'', Op ''Q''] = Inr (scan_init\<lparr>stage := 1\<rparr>)"
  by (simp add: scan_eval)

text \<open>The state after the example page.\<close>

lemma run_example_page:
  "run scan_init example_page =
     Inr \<lparr>stage = 3, level = 1, intext = False, params = [],
          transform = GraphicsMap_init, graphicstate = [GraphicsMap_init], linestate = 23,
          X_min = Some 0, X_max = Some 100, T_width = Some 100, t_start = Some 10,
          subtrace = 0, origins_trace = [50, 80], origins_beats = [],
          times_list = [0, 10], trace = [10, 15], beats = []\<rparr>"
  by (simp add: example_page_def scan_eval)

subsection \<open>The role counter \<open>linestate\<close>\<close>

text \<open>Only \<open>w\<close> and \<open>Q\<close> change \<open>linestate\<close>, and \<open>Q\<close> adds one to a nonzero value.\<close>

lemma step_linestate:
  assumes "step s tk = Inr s'" and "tk \<noteq> Op ''w''"
  shows "linestate s' =
    (if tk = Op ''Q'' \<and> linestate s \<noteq> 0 then linestate s + 1 else linestate s)"
proof (cases tk)
  case (Num v)
  with assms show ?thesis by auto
next
  case (Op d)
  with assms show ?thesis
    by (auto simp: operator_def op_q_def op_Q_def op_cm_def op_m_def op_l_def
        trace_append_def Let_def
        split: if_splits sum.splits list.splits option.splits prod.splits)
qed

lemma run_linestate:
  assumes "run s tks = Inr s'" and "Op ''w'' \<notin> set tks" and "0 \<le> linestate s"
  shows "linestate s' =
    (if linestate s = 0 then 0 else linestate s + int (count_list tks (Op ''Q'')))"
  using assms
proof (induction tks arbitrary: s)
  case Nil
  then show ?case by simp
next
  case (Cons tk tks)
  from Cons.prems(1) obtain s1 where s1: "step s tk = Inr s1" and r: "run s1 tks = Inr s'"
    by (auto split: sum.splits)
  from Cons.prems(2) have nw: "tk \<noteq> Op ''w''" and nws: "Op ''w'' \<notin> set tks"
    by auto
  note l1 = step_linestate [OF s1 nw]
  from l1 Cons.prems(3) have nn: "0 \<le> linestate s1"
    by (simp split: if_splits)
  from Cons.IH [OF r nws nn] l1 Cons.prems(3) show ?case
    by (auto split: if_splits)
qed

subsection \<open>The border block\<close>

text \<open>
  C2, as stated, fails. Scanned from the initial state, the stream
  \<open>q q 0.4 w 1 0 0 -1 0 0 cm 0 0 m 100 0 l S Q Q\<close> leaves \<open>X_min\<close>, \<open>X_max\<close> and
  \<open>T_width\<close> unset: the outer \<open>q\<close> takes \<open>stage\<close> from 0 to 1, not to 2, so \<open>0.4 w\<close>
  assigns no role and the path is ignored. The final state is the initial one but for
  \<open>stage = 1\<close>.
\<close>

theorem border_stream_from_start_sets_nothing:
  "run scan_init
     [Op ''q'', Op ''q'', Num (PyFloat 0.4), Op ''w'',
      Num (PyInt 1), Num (PyInt 0), Num (PyInt 0), Num (PyInt (- 1)), Num (PyInt 0),
      Num (PyInt 0), Op ''cm'',
      Num (PyInt 0), Num (PyInt 0), Op ''m'',
      Num (PyInt 100), Num (PyInt 0), Op ''l'', Op ''S'', Op ''Q'', Op ''Q'']
   = Inr \<lparr>stage = 1, level = 0, intext = False, params = [],
          transform = GraphicsMap_init, graphicstate = [], linestate = 0,
          X_min = None, X_max = None, T_width = None, t_start = None,
          subtrace = - 1, origins_trace = [], origins_beats = [],
          times_list = [], trace = [], beats = []\<rparr>"
  by (simp add: scan_eval)

text \<open>
  C2, amended: scanned from a state between top-level blocks in which one top-level
  block has been seen (\<open>stage = 1\<close>, \<open>level = 0\<close>, no pending operands, \<open>T_width\<close> unset),
  the same stream succeeds and leaves \<open>X_min = 0\<close>, \<open>X_max = 100\<close> and \<open>T_width = 100\<close>;
  its outer \<open>q\<close> takes \<open>stage\<close> to 2 and the two \<open>Q\<close> take the role from 1 to 3.
\<close>

theorem border_stream_in_stage_2:
  assumes "stage s = 1" and "level s = 0" and "params s = []" and "T_width s = None"
  shows "\<exists>s'. run s
     [Op ''q'', Op ''q'', Num (PyFloat 0.4), Op ''w'',
      Num (PyInt 1), Num (PyInt 0), Num (PyInt 0), Num (PyInt (- 1)), Num (PyInt 0),
      Num (PyInt 0), Op ''cm'',
      Num (PyInt 0), Num (PyInt 0), Op ''m'',
      Num (PyInt 100), Num (PyInt 0), Op ''l'', Op ''S'', Op ''Q'', Op ''Q''] = Inr s'
    \<and> X_min s' = Some 0 \<and> X_max s' = Some 100 \<and> T_width s' = Some 100
    \<and> stage s' = 2 \<and> linestate s' = 3"
  using assms by (simp add: scan_eval)

theorem border_stream_in_stage_2_witness:
  "\<exists>s'. run scan_init
     ([Op ''q'', Op ''Q''] @
      [Op ''q'', Op ''q'', Num (PyFloat 0.4), Op ''w'',
       Num (PyInt 1), Num (PyInt 0), Num (PyInt 0), Num (PyInt (- 1)), Num (PyInt 0),
       Num (PyInt 0), Op ''cm'',
       Num (PyInt 0), Num (PyInt 0), Op ''m'',
       Num (PyInt 100), Num (PyInt 0), Op ''l'', Op ''S'', Op ''Q'', Op ''Q'']) = Inr s'
    \<and> X_min s' = Some 0 \<and> X_max s' = Some 100 \<and> T_width s' = Some 100
    \<and> stage s' = 2 \<and> linestate s' = 3"
  unfolding run_append run_stage1_block
  using border_stream_in_stage_2 [of "scan_init\<lparr>stage := 1\<rparr>"]
  by (simp add: scan_init_def)

subsection \<open>Restore on an empty stack\<close>

text \<open>
  C8: when the tokens scanned so far leave \<open>graphicstate\<close> empty, a \<open>Q\<close> raises
  (\<open>IndexError\<close>, from \<open>pop\<close>), and the scan of the whole stream, whatever follows the
  \<open>Q\<close>, ends with that exception: neither \<open>self.ecg\<close> nor \<open>self.beats\<close> is produced.
\<close>

theorem restore_on_empty_stack_fails:
  assumes "run scan_init pre = Inr s" and "graphicstate s = []"
  shows "step s (Op ''Q'') = Inl IndexError
    \<and> scan (pre @ Op ''Q'' # rest) = Inl IndexError"
  using assms by (simp add: scan_def run_append operator_def op_Q_def)

theorem restore_on_empty_stack_fails_witness:
  "step (scan_init\<lparr>stage := 1\<rparr>) (Op ''Q'') = Inl IndexError
    \<and> scan ([Op ''q'', Op ''Q''] @ Op ''Q'' # [Num (PyInt 1), Op ''w'']) = Inl IndexError"
proof -
  have g: "graphicstate (scan_init\<lparr>stage := 1\<rparr>) = []"
    by (simp add: scan_init_def)
  from restore_on_empty_stack_fails [OF run_stage1_block g] show ?thesis .
qed

subsection \<open>Role advancement\<close>

text \<open>
  C3: a \<open>Q\<close> that is processed (the stack is not empty) adds exactly one to a nonzero
  role and leaves role 0 at 0; from role 1, any tokens without a \<open>w\<close> among which there
  are two \<open>Q\<close> end in role 3; and a \<open>w\<close> with one operand whose (stage, width) is one of
  the five recognised pairs succeeds and sets the role of that pair, whatever the role
  was before.
\<close>

theorem restore_advances_role:
  "(step s (Op ''Q'') = Inr s1 \<longrightarrow>
      linestate s1 = (if linestate s \<noteq> 0 then linestate s + 1 else 0))
   \<and> (linestate s = 1 \<and> Op ''w'' \<notin> set tks \<and> count_list tks (Op ''Q'') = 2
        \<and> run s tks = Inr s2 \<longrightarrow> linestate s2 = 3)
   \<and> (params s = [v] \<and>
        (stage s, num_val v, r) \<in>
          {(2, 0.4, 1), (2, 0.3, 11), (3, 1.5, 21), (3, 0.4, 22), (3, 0.6, 23)} \<longrightarrow>
        (\<exists>s3. step s (Op ''w'') = Inr s3 \<and> linestate s3 = r))"
proof (intro conjI impI)
  assume "step s (Op ''Q'') = Inr s1"
  then show "linestate s1 = (if linestate s \<noteq> 0 then linestate s + 1 else 0)"
    using step_linestate [of s "Op ''Q''" s1] by auto
next
  assume "linestate s = 1 \<and> Op ''w'' \<notin> set tks \<and> count_list tks (Op ''Q'') = 2
        \<and> run s tks = Inr s2"
  then show "linestate s2 = 3"
    using run_linestate [of s tks s2] by simp
next
  assume "params s = [v] \<and>
        (stage s, num_val v, r) \<in>
          {(2, 0.4, 1), (2, 0.3, 11), (3, 1.5, 21), (3, 0.4, 22), (3, 0.6, 23)}"
  then show "\<exists>s3. step s (Op ''w'') = Inr s3 \<and> linestate s3 = r"
    by (auto simp: operator_def op_w_def)
qed

theorem restore_advances_role_witness:
  "run scan_init
     [Op ''q'', Op ''Q'', Op ''q'', Num (PyFloat 0.4), Op ''w'', Op ''q'', Num (PyFloat 0.3)]
     = Inr (scan_init\<lparr>stage := 2, level := 2, params := [PyFloat 0.3],
              graphicstate := [GraphicsMap_init, GraphicsMap_init], linestate := 1\<rparr>)
   \<and> (\<exists>s1. step (scan_init\<lparr>stage := 2, level := 2, params := [PyFloat 0.3],
              graphicstate := [GraphicsMap_init, GraphicsMap_init], linestate := 1\<rparr>)
            (Op ''Q'') = Inr s1 \<and> linestate s1 = 2)
   \<and> (\<exists>s2. run (scan_init\<lparr>stage := 2, level := 2, params := [PyFloat 0.3],
              graphicstate := [GraphicsMap_init, GraphicsMap_init], linestate := 1\<rparr>)
            [Op ''Q'', Op ''S'', Op ''Q''] = Inr s2 \<and> linestate s2 = 3)
   \<and> (\<exists>s3. step (scan_init\<lparr>stage := 2, level := 2, params := [PyFloat 0.3],
              graphicstate := [GraphicsMap_init, GraphicsMap_init], linestate := 1\<rparr>)
            (Op ''w'') = Inr s3 \<and> linestate s3 = 11)"
proof -
  let ?s = "scan_init\<lparr>stage := 2, level := 2, params := [PyFloat 0.3],
              graphicstate := [GraphicsMap_init, GraphicsMap_init], linestate := 1\<rparr>"
  have r: "run scan_init
     [Op ''q'', Op ''Q'', Op ''q'', Num (PyFloat 0.4), Op ''w'', Op ''q'', Num (PyFloat 0.3)]
     = Inr ?s"
    by (simp add: scan_eval)
  obtain s1 where s1: "step ?s (Op ''Q'') = Inr s1"
    by (simp add: scan_eval)
  obtain s2 where s2: "run ?s [Op ''Q'', Op ''S'', Op ''Q''] = Inr s2"
    by (simp add: scan_eval)
  have l: "linestate ?s = 1" and p: "params ?s = [PyFloat 0.3]" and st: "stage ?s = 2"
    by (simp_all add: scan_init_def)
  have c: "count_list [Op ''Q'', Op ''S'', Op ''Q''] (Op ''Q'') = 2"
    by simp
  have n: "Op ''w'' \<notin> set [Op ''Q'', Op ''S'', Op ''Q'']"
    by simp
  have m: "(stage ?s, num_val (PyFloat 0.3), 11) \<in>
          {(2, 0.4, 1), (2, 0.3, 11), (3, 1.5, 21), (3, 0.4, 22), (3, 0.6, 23::int)}"
    using st by simp
  note t = restore_advances_role
    [of ?s s1 "[Op ''Q'', Op ''S'', Op ''Q'']" s2 "PyFloat 0.3" 11]
  from t s1 l have "linestate s1 = 2" by simp
  moreover from t l n c s2 have "linestate s2 = 3" by blast
  moreover from t p m have "\<exists>s3. step ?s (Op ''w'') = Inr s3 \<and> linestate s3 = 11" by blast
  ultimately show ?thesis using r s1 s2 by blast
qed

subsection \<open>Beat markers keep their role\<close>

text \<open>
  C4, as stated, fails in its last part. In the scan below \<open>0.6 w\<close> sets role 23 in
  stage 3 and a \<open>q Q\<close> pair follows, so the role is 24 when the \<open>m\<close> is met. The \<open>m\<close>
  takes the beat-marker branch, but no trace-role \<open>m\<close> has set \<open>t_start\<close>: \<open>x - t_start\<close>
  raises \<open>TypeError\<close>, nothing is appended to \<open>beats\<close>, and the scan ends without a
  result.
\<close>

theorem beat_marker_move_before_cursor_raises:
  "run scan_init
     [Op ''q'', Op ''Q'', Op ''q'', Op ''Q'',
      Op ''q'', Num (PyFloat 0.6), Op ''w'', Op ''q'', Op ''Q'',
      Op ''q'', Num (PyInt 1), Num (PyInt 2)]
   = Inr \<lparr>stage = 3, level = 2, intext = False, params = [PyInt 1, PyInt 2],
          transform = GraphicsMap_init,
          graphicstate = [GraphicsMap_init, GraphicsMap_init], linestate = 24,
          X_min = None, X_max = None, T_width = None, t_start = None,
          subtrace = - 1, origins_trace = [], origins_beats = [],
          times_list = [], trace = [], beats = []\<rparr>
   \<and> scan
     [Op ''q'', Op ''Q'', Op ''q'', Op ''Q'',
      Op ''q'', Num (PyFloat 0.6), Op ''w'', Op ''q'', Op ''Q'',
      Op ''q'', Num (PyInt 1), Num (PyInt 2), Op ''m'']
   = Inl TypeError"
  by (simp add: scan_def scan_eval)

text \<open>
  C4, amended: from a role of at least 23, any tokens without a \<open>w\<close> that are processed
  without an exception leave the role at least 23: it is the old role plus the number
  of \<open>Q\<close> among them (a \<open>q\<close>, like every other token, leaves it unchanged). An \<open>m\<close> met
  there takes the beat-marker branch. With two operands that \<open>GraphicsMap.map\<close> accepts
  and \<open>t_start\<close> set, it appends \<open>x - t_start\<close> to \<open>beats\<close> and changes nothing else;
  otherwise it raises: the assertion on the operand count, \<open>OverflowError\<close> from the
  mapping, or \<open>TypeError\<close> while \<open>t_start\<close> is unset.
\<close>

theorem beat_marker_role_is_kept:
  assumes "23 \<le> linestate s" and "Op ''w'' \<notin> set tks" and "run s tks = Inr s'"
  shows "23 \<le> linestate s'
    \<and> linestate s' = linestate s + int (count_list tks (Op ''Q''))
    \<and> step s' (Op ''m'') =
        (case params s' of
           [a, b] \<Rightarrow>
             (case map_point (transform s') (a, b) of
                Inl e \<Rightarrow> Inl e
              | Inr (x, y) \<Rightarrow>
                  (case t_start s' of
                     None \<Rightarrow> Inl TypeError
                   | Some t \<Rightarrow> Inr (s'\<lparr>beats := beats s' @ [x - t], params := []\<rparr>)))
         | _ \<Rightarrow> Inl AssertionError)
    \<and> (\<forall>a b x y t. params s' = [a, b] \<and> map_point (transform s') (a, b) = Inr (x, y)
          \<and> t_start s' = Some t \<longrightarrow>
          step s' (Op ''m'') = Inr (s'\<lparr>beats := beats s' @ [x - t], params := []\<rparr>))"
proof -
  have l: "linestate s' = linestate s + int (count_list tks (Op ''Q''))"
    using run_linestate [OF assms(3) assms(2)] assms(1) by simp
  then have g: "23 \<le> linestate s'"
    using assms(1) by simp
  then have m: "step s' (Op ''m'') =
        (case params s' of
           [a, b] \<Rightarrow>
             (case map_point (transform s') (a, b) of
                Inl e \<Rightarrow> Inl e
              | Inr (x, y) \<Rightarrow>
                  (case t_start s' of
                     None \<Rightarrow> Inl TypeError
                   | Some t \<Rightarrow> Inr (s'\<lparr>beats := beats s' @ [x - t], params := []\<rparr>)))
         | _ \<Rightarrow> Inl AssertionError)"
    by (simp add: operator_def op_m_def
        split: list.splits option.splits sum.splits prod.splits)
  then have "\<forall>a b x y t. params s' = [a, b] \<and> map_point (transform s') (a, b) = Inr (x, y)
          \<and> t_start s' = Some t \<longrightarrow>
          step s' (Op ''m'') = Inr (s'\<lparr>beats := beats s' @ [x - t], params := []\<rparr>)"
    by simp
  with l g m show ?thesis by blast
qed

theorem beat_marker_role_is_kept_witness:
  "\<exists>s'. run scan_init
           (example_page @ [Op ''q'', Op ''Q'', Op ''q'', Num (PyInt 35), Num (PyInt 7)])
         = Inr s'
     \<and> linestate s' = 24
     \<and> step s' (Op ''m'') = Inr (s'\<lparr>beats := [25], params := []\<rparr>)"
proof -
  let ?s = "\<lparr>stage = 3, level = 1, intext = False, params = [],
          transform = GraphicsMap_init, graphicstate = [GraphicsMap_init], linestate = 23,
          X_min = Some 0, X_max = Some 100, T_width = Some 100, t_start = Some 10,
          subtrace = 0, origins_trace = [50, 80], origins_beats = [],
          times_list = [0, 10], trace = [10, 15], beats = []\<rparr>"
  let ?tks = "[Op ''q'', Op ''Q'', Op ''q'', Num (PyInt 35), Num (PyInt 7)]"
  obtain s' where r: "run ?s ?tks = Inr s'"
      and f: "params s' = [PyInt 35, PyInt 7]" "t_start s' = Some 10"
        "transform s' = GraphicsMap_init" "beats s' = []"
    by (simp add: scan_eval)
  have p: "map_point (transform s') (PyInt 35, PyInt 7) = Inr (35, 7)"
    using f by (simp add: map_point_def GraphicsMap_init_def)
  have a: "23 \<le> linestate ?s" and n: "Op ''w'' \<notin> set ?tks"
    by simp_all
  from beat_marker_role_is_kept [OF a n r] f p have "linestate s' = 24
     \<and> step s' (Op ''m'') = Inr (s'\<lparr>beats := [25], params := []\<rparr>)"
    by simp
  with r show ?thesis
    unfolding run_append run_example_page by simp
qed

subsection \<open>The transformation matrix\<close>

text \<open>
  C9: a \<open>cm\<close> whose second or third pending operand is not zero fails its assertion, and
  a scan that reaches it ends there with no result, whatever follows. With exactly six
  operands of which the second and third are zero, it succeeds and installs
  \<open>(Sx, Sy, Tx, Ty)\<close> = (operand 1, operand 4, operand 5, operand 6). (Python's
  \<open>AssertionError\<close> is the code's form of the specification's failure kinds.)
\<close>

theorem cm_requires_axis_aligned_matrix:
  "(((1 < length (params s) \<and> num_val (params s ! 1) \<noteq> 0)
       \<or> (2 < length (params s) \<and> num_val (params s ! 2) \<noteq> 0)) \<longrightarrow>
      step s (Op ''cm'') = Inl AssertionError
      \<and> (run scan_init pre = Inr s \<longrightarrow> scan (pre @ Op ''cm'' # rest) = Inl AssertionError))
   \<and> (params s = [a, b, c, d, e, f] \<and> num_val b = 0 \<and> num_val c = 0 \<longrightarrow>
        step s (Op ''cm'') =
          Inr (s\<lparr>transform := \<lparr>Sx = a, Sy = d, Tx = e, Ty = f\<rparr>, params := []\<rparr>))"
proof (intro conjI impI)
  assume a: "(1 < length (params s) \<and> num_val (params s ! 1) \<noteq> 0)
       \<or> (2 < length (params s) \<and> num_val (params s ! 2) \<noteq> 0)"
  have "op_cm s = Inl AssertionError"
  proof (cases "length (params s) = 6")
    case False
    then show ?thesis by (simp add: op_cm_def)
  next
    case True
    then obtain p0 p1 p2 p3 p4 p5 where "params s = [p0, p1, p2, p3, p4, p5]"
      by (auto simp: length_Suc_conv eval_nat_numeral)
    with a show ?thesis by (auto simp: op_cm_def)
  qed
  then show st: "step s (Op ''cm'') = Inl AssertionError"
    by (simp add: operator_def)
  assume "run scan_init pre = Inr s"
  with st show "scan (pre @ Op ''cm'' # rest) = Inl AssertionError"
    by (simp add: scan_def run_append)
next
  assume "params s = [a, b, c, d, e, f] \<and> num_val b = 0 \<and> num_val c = 0"
  then show "step s (Op ''cm'') =
          Inr (s\<lparr>transform := \<lparr>Sx = a, Sy = d, Tx = e, Ty = f\<rparr>, params := []\<rparr>)"
    by (simp add: operator_def op_cm_def)
qed

theorem cm_requires_axis_aligned_matrix_witness:
  "scan ([Op ''q'', Num (PyInt 1), Num (PyFloat 0.1), Num (PyInt 0), Num (PyInt 0),
          Num (PyInt 5), Num (PyInt 5)] @ Op ''cm'' # [Op ''Q'']) = Inl AssertionError
   \<and> step (scan_init\<lparr>params := [PyInt 1, PyInt 0, PyInt 0, PyInt (- 1), PyInt 5, PyInt 5]\<rparr>)
        (Op ''cm'')
      = Inr (scan_init\<lparr>transform := \<lparr>Sx = PyInt 1, Sy = PyInt (- 1), Tx = PyInt 5, Ty = PyInt 5\<rparr>\<rparr>)"
proof -
  let ?pre = "[Op ''q'', Num (PyInt 1), Num (PyFloat 0.1), Num (PyInt 0), Num (PyInt 0),
          Num (PyInt 5), Num (PyInt 5)]"
  let ?s = "scan_init\<lparr>stage := 1, level := 1, graphicstate := [GraphicsMap_init],
     params := [PyInt 1, PyFloat 0.1, PyInt 0, PyInt 0, PyInt 5, PyInt 5]\<rparr>"
  let ?t = "scan_init\<lparr>params := [PyInt 1, PyInt 0, PyInt 0, PyInt (- 1), PyInt 5, PyInt 5]\<rparr>"
  have r: "run scan_init ?pre = Inr ?s"
    by (simp add: scan_eval)
  have h: "(1 < length (params ?s) \<and> num_val (params ?s ! 1) \<noteq> 0)
       \<or> (2 < length (params ?s) \<and> num_val (params ?s ! 2) \<noteq> 0)"
    by simp
  have g: "params ?t = [PyInt 1, PyInt 0, PyInt 0, PyInt (- 1), PyInt 5, PyInt 5]
      \<and> num_val (PyInt 0) = 0 \<and> num_val (PyInt 0) = 0"
    by simp
  from cm_requires_axis_aligned_matrix [of ?s ?pre "[Op ''Q'']"] h r
  have 1: "scan (?pre @ Op ''cm'' # [Op ''Q'']) = Inl AssertionError"
    by blast
  from cm_requires_axis_aligned_matrix [of ?t _ _ "PyInt 1" "PyInt 0" "PyInt 0" "PyInt (- 1)" "PyInt 5" "PyInt 5"] g
  have "step ?t (Op ''cm'') =
     Inr (?t\<lparr>transform := \<lparr>Sx = PyInt 1, Sy = PyInt (- 1), Tx = PyInt 5, Ty = PyInt 5\<rparr>,
        params := []\<rparr>)"
    by blast
  with 1 show ?thesis by (simp add: scan_init_def)
qed

subsection \<open>The rescaling of the results\<close>

text \<open>
  C7: the results have the lengths of the accumulated lists; element \<open>i\<close> of the times
  and of the beat times is the accumulated element times \<open>POINTS2MM / T_scale\<close>, element
  \<open>i\<close> of the amplitudes the accumulated element times \<open>POINTS2MM / V_scale\<close>; with the
  constants of the source the first factor is \<open>(25.4 / 72.0) / 25\<close>; and a scan that
  returns returns exactly these rescaled lists of its final state.
\<close>

theorem finalize_rescales_each_element:
  "length (fst (self_ecg (finalize s))) = length (times_list s)
   \<and> length (snd (self_ecg (finalize s))) = length (trace s)
   \<and> length (self_beats (finalize s)) = length (beats s)
   \<and> (\<forall>i < length (times_list s).
        fst (self_ecg (finalize s)) ! i = times_list s ! i * (POINTS2MM / T_scale))
   \<and> (\<forall>i < length (trace s).
        snd (self_ecg (finalize s)) ! i = trace s ! i * (POINTS2MM / V_scale))
   \<and> (\<forall>i < length (beats s).
        self_beats (finalize s) ! i = beats s ! i * (POINTS2MM / T_scale))
   \<and> POINTS2MM / T_scale = (25.4 / 72.0) / 25
   \<and> (\<forall>i < length (times_list s).
        fst (self_ecg (finalize s)) ! i = times_list s ! i * ((25.4 / 72.0) / 25))
   \<and> (scan tks = Inr out \<longrightarrow> (\<exists>s0. run scan_init tks = Inr s0 \<and> out = finalize s0))"
  by (auto simp: finalize_def scan_def POINTS2MM_def T_scale_def split: sum.splits)

theorem finalize_rescales_each_element_witness:
  "length (fst (self_ecg (finalize (scan_init\<lparr>times_list := [0, 10, 20], trace := [1, 2, 3]\<rparr>)))) = 3
   \<and> fst (self_ecg (finalize (scan_init\<lparr>times_list := [0, 10, 20], trace := [1, 2, 3]\<rparr>))) ! 0
       = 0 * ((25.4 / 72.0) / 25)
   \<and> fst (self_ecg (finalize (scan_init\<lparr>times_list := [0, 10, 20], trace := [1, 2, 3]\<rparr>))) ! 1
       = 10 * ((25.4 / 72.0) / 25)
   \<and> fst (self_ecg (finalize (scan_init\<lparr>times_list := [0, 10, 20], trace := [1, 2, 3]\<rparr>))) ! 2
       = 20 * ((25.4 / 72.0) / 25)"
proof -
  let ?s = "scan_init\<lparr>times_list := [0, 10, 20], trace := [1, 2, 3]\<rparr>"
  have t: "times_list ?s = [0, 10, 20]"
    by simp
  from finalize_rescales_each_element [of ?s] have
    l: "length (fst (self_ecg (finalize ?s))) = length (times_list ?s)" and
    e: "\<forall>i < length (times_list ?s).
        fst (self_ecg (finalize ?s)) ! i = times_list ?s ! i * ((25.4 / 72.0) / 25)"
    by blast+
  have "length (fst (self_ecg (finalize ?s))) = 3"
    unfolding l t by simp
  moreover have "fst (self_ecg (finalize ?s)) ! 0 = 0 * ((25.4 / 72.0) / 25)"
    using e [rule_format, of 0] unfolding t by simp
  moreover have "fst (self_ecg (finalize ?s)) ! 1 = 10 * ((25.4 / 72.0) / 25)"
    using e [rule_format, of 1] unfolding t by simp
  moreover have "fst (self_ecg (finalize ?s)) ! 2 = 20 * ((25.4 / 72.0) / 25)"
    using e [rule_format, of 2] unfolding t by simp
  ultimately show ?thesis
    by blast
qed

subsection \<open>Times and amplitudes are parallel\<close>

text \<open>What one loop pass does to \<open>times\<close> and \<open>trace\<close>.\<close>

lemma step_times_trace:
  assumes "step s tk = Inr s'"
  shows "if linestate s = 22 \<and> (tk = Op ''m'' \<or> tk = Op ''l'')
         then \<exists>t v. times_list s' = times_list s @ [t] \<and> trace s' = trace s @ [v]
         else times_list s' = times_list s \<and> trace s' = trace s"
proof (cases tk)
  case (Num v)
  with assms show ?thesis by auto
next
  case (Op d)
  with assms show ?thesis
    by (auto simp: operator_def op_q_def op_Q_def op_cm_def op_w_def op_m_def op_l_def
        trace_append_def Let_def
        split: if_splits sum.splits list.splits option.splits prod.splits)
qed

lemma step_lengths:
  assumes "step s tk = Inr s'" and "length (times_list s) = length (trace s)"
  shows "length (times_list s') = length (trace s')"
  using step_times_trace [OF assms(1)] assms(2) by (auto split: if_splits)

lemma run_lengths:
  assumes "run s tks = Inr s'" and "length (times_list s) = length (trace s)"
  shows "length (times_list s') = length (trace s')"
  using assms
proof (induction tks arbitrary: s)
  case Nil
  then show ?case by simp
next
  case (Cons tk tks)
  from Cons.prems(1) obtain s1 where s1: "step s tk = Inr s1" and r: "run s1 tks = Inr s'"
    by (auto split: sum.splits)
  from Cons.IH [OF r step_lengths [OF s1 Cons.prems(2)]] show ?case .
qed

text \<open>
  C6: when the scan of a stream completes, \<open>times\<close> and \<open>trace\<close> have the same length
  at the end and after every prefix of the stream (each prefix is scanned without an
  exception, too), and so have the two result arrays. A pass that completes appends
  one element to each of the two lists when it is an \<open>m\<close> or an \<open>l\<close> under role 22, and
  leaves both unchanged otherwise.
\<close>

theorem times_and_trace_grow_together:
  "(run scan_init tks = Inr s \<longrightarrow>
      length (times_list s) = length (trace s)
      \<and> (\<forall>n. \<exists>s1. run scan_init (take n tks) = Inr s1
             \<and> length (times_list s1) = length (trace s1)))
   \<and> (scan tks = Inr out \<longrightarrow> length (fst (self_ecg out)) = length (snd (self_ecg out)))
   \<and> (step s0 tk = Inr s0' \<longrightarrow>
        (if linestate s0 = 22 \<and> (tk = Op ''m'' \<or> tk = Op ''l'')
         then \<exists>t v. times_list s0' = times_list s0 @ [t] \<and> trace s0' = trace s0 @ [v]
         else times_list s0' = times_list s0 \<and> trace s0' = trace s0))"
proof (intro conjI impI allI)
  have i: "length (times_list scan_init) = length (trace scan_init)"
    by (simp add: scan_init_def)
  {
    assume r: "run scan_init tks = Inr s"
    from run_lengths [OF r i] show "length (times_list s) = length (trace s)" .
    fix n
    from run_prefix_ok [OF r, of n] obtain s1 where p: "run scan_init (take n tks) = Inr s1"
      by blast
    from run_lengths [OF p i] p
    show "\<exists>s1. run scan_init (take n tks) = Inr s1
             \<and> length (times_list s1) = length (trace s1)"
      by blast
  }
  {
    assume "scan tks = Inr out"
    then obtain sf where r: "run scan_init tks = Inr sf" and o: "out = finalize sf"
      by (auto simp: scan_def split: sum.splits)
    from run_lengths [OF r i] o
    show "length (fst (self_ecg out)) = length (snd (self_ecg out))"
      by (simp add: finalize_def)
  }
  {
    assume "step s0 tk = Inr s0'"
    from step_times_trace [OF this]
    show "if linestate s0 = 22 \<and> (tk = Op ''m'' \<or> tk = Op ''l'')
         then \<exists>t v. times_list s0' = times_list s0 @ [t] \<and> trace s0' = trace s0 @ [v]
         else times_list s0' = times_list s0 \<and> trace s0' = trace s0" .
  }
qed

theorem times_and_trace_grow_together_witness:
  "(\<exists>s. run scan_init example_page = Inr s
        \<and> length (times_list s) = 2 \<and> length (trace s) = 2)
   \<and> (\<exists>out. scan example_page = Inr out
        \<and> length (fst (self_ecg out)) = length (snd (self_ecg out)))
   \<and> (\<exists>s0 s0'. run scan_init (take 34 example_page) = Inr s0 \<and> linestate s0 = 22
        \<and> step s0 (Op ''m'') = Inr s0'
        \<and> (\<exists>t v. times_list s0' = times_list s0 @ [t] \<and> trace s0' = trace s0 @ [v]))"
proof -
  obtain s where r: "run scan_init example_page = Inr s" and t: "times_list s = [0, 10]"
    using run_example_page by simp
  obtain out where o: "scan example_page = Inr out"
    by (simp add: scan_def r)
  obtain s0 where p: "run scan_init (take 34 example_page) = Inr s0"
      and l: "linestate s0 = 22" and q: "params s0 = [PyInt 10, PyInt 60]"
      and u: "t_start s0 = None" "subtrace s0 = 0" "origins_trace s0 = [50, 80]"
        "transform s0 = GraphicsMap_init"
    by (simp add: example_page_def scan_eval)
  obtain s0' where m: "step s0 (Op ''m'') = Inr s0'"
    using l q u by (simp add: scan_eval)
  note c = times_and_trace_grow_together [of example_page s out s0 "Op ''m''" s0']
  from c r t have "length (times_list s) = 2 \<and> length (trace s) = 2"
    by simp
  moreover from c o have "length (fst (self_ecg out)) = length (snd (self_ecg out))"
    by blast
  moreover from c m l
  have "\<exists>t v. times_list s0' = times_list s0 @ [t] \<and> trace s0' = trace s0 @ [v]"
    by simp
  ultimately show ?thesis
    using r o p l m by blast
qed

subsection \<open>Beat markers and the time cursor\<close>

text \<open>Once set, \<open>t_start\<close> stays set, and a trace-role \<open>m\<close> that completes sets it.\<close>

lemma step_t_start:
  assumes "step s tk = Inr s'" and "t_start s \<noteq> None"
  shows "t_start s' \<noteq> None"
proof (cases tk)
  case (Num v)
  with assms show ?thesis by auto
next
  case (Op d)
  with assms show ?thesis
    by (auto simp: operator_def op_q_def op_Q_def op_cm_def op_w_def op_m_def op_l_def
        trace_append_def Let_def
        split: if_splits sum.splits list.splits option.splits prod.splits)
qed

lemma run_t_start:
  assumes "run s tks = Inr s'" and "t_start s \<noteq> None"
  shows "t_start s' \<noteq> None"
  using assms
proof (induction tks arbitrary: s)
  case Nil
  then show ?case by simp
next
  case (Cons tk tks)
  from Cons.prems(1) obtain s1 where s1: "step s tk = Inr s1" and r: "run s1 tks = Inr s'"
    by (auto split: sum.splits)
  from Cons.IH [OF r step_t_start [OF s1 Cons.prems(2)]] show ?case .
qed

lemma trace_move_sets_t_start:
  assumes "step s (Op ''m'') = Inr s'" and "linestate s = 22"
  shows "t_start s' \<noteq> None"
  using assms
  by (auto simp: operator_def op_m_def trace_append_def Let_def
      split: if_splits sum.splits list.splits option.splits prod.splits)

text \<open>
  After the example page, a beat-marker \<open>m\<close> whose first operand is an \<open>int\<close> beyond the
  float range raises in \<open>GraphicsMap.map\<close>.
\<close>

lemma beat_marker_move_beyond_float_range:
  assumes "\<not> in_float_range (PyInt n)"
  shows "run scan_init (example_page @ [Op ''q'', Num (PyInt n), Num (PyInt 7)])
   = Inr \<lparr>stage = 3, level = 2, intext = False,
          params = [PyInt n, PyInt 7],
          transform = GraphicsMap_init,
          graphicstate = [GraphicsMap_init, GraphicsMap_init], linestate = 23,
          X_min = Some 0, X_max = Some 100, T_width = Some 100, t_start = Some 10,
          subtrace = 0, origins_trace = [50, 80], origins_beats = [],
          times_list = [0, 10], trace = [10, 15], beats = []\<rparr>
   \<and> scan (example_page @ [Op ''q'', Num (PyInt n), Num (PyInt 7), Op ''m''])
   = Inl OverflowError"
proof -
  let ?s = "\<lparr>stage = 3, level = 2, intext = False,
          params = [PyInt n, PyInt 7],
          transform = GraphicsMap_init,
          graphicstate = [GraphicsMap_init, GraphicsMap_init], linestate = 23,
          X_min = Some 0, X_max = Some 100, T_width = Some 100, t_start = Some 10,
          subtrace = 0, origins_trace = [50, 80], origins_beats = [],
          times_list = [0, 10], trace = [10, 15], beats = []\<rparr>"
  have r: "run scan_init (example_page @ [Op ''q'', Num (PyInt n), Num (PyInt 7)]) = Inr ?s"
    unfolding run_append run_example_page by (simp add: op_q_def operator_def)
  have m: "step ?s (Op ''m'') = Inl OverflowError"
    using assms by (simp add: operator_def op_m_def map_point_def)
  have "scan ((example_page @ [Op ''q'', Num (PyInt n), Num (PyInt 7)]) @ [Op ''m''])
      = Inl OverflowError"
    unfolding scan_def run_append [of _ "example_page @ [Op ''q'', Num (PyInt n), Num (PyInt 7)]"] r
    using m by simp
  with r show ?thesis
    by simp
qed

text \<open>
  C10, as stated, fails in its last part. The example page has a trace-role \<open>m\<close>, which
  sets \<open>t_start\<close> to 10, and ends in role 23. The \<open>m\<close> that follows it below has the two
  operands \<open>10 ^ 309\<close> and 7: line 269 raises \<open>OverflowError\<close> (int too large to convert
  to float), no timestamp is appended, and the scan ends without a result.
\<close>

theorem beat_marker_move_overflows:
  "run scan_init (example_page @ [Op ''q'', Num (PyInt (10 ^ 309)), Num (PyInt 7)])
   = Inr \<lparr>stage = 3, level = 2, intext = False,
          params = [PyInt (10 ^ 309), PyInt 7],
          transform = GraphicsMap_init,
          graphicstate = [GraphicsMap_init, GraphicsMap_init], linestate = 23,
          X_min = Some 0, X_max = Some 100, T_width = Some 100, t_start = Some 10,
          subtrace = 0, origins_trace = [50, 80], origins_beats = [],
          times_list = [0, 10], trace = [10, 15], beats = []\<rparr>
   \<and> scan (example_page @ [Op ''q'', Num (PyInt (10 ^ 309)), Num (PyInt 7), Op ''m''])
   = Inl OverflowError"
  by (rule beat_marker_move_beyond_float_range) (simp add: float_int_limit_def)

text \<open>
  C10, amended: an \<open>m\<close> under a role of at least 23 while \<open>t_start\<close> is unset raises (the
  assertion on the operand count, \<open>OverflowError\<close> from the mapping, or else \<open>TypeError\<close>
  from \<open>x - t_start\<close>), and the scan ends there without a result. After a trace-role
  \<open>m\<close> has completed, every later beat-marker \<open>m\<close> finds \<open>t_start\<close> set, so that the
  \<open>TypeError\<close> cannot occur: with two operands that \<open>GraphicsMap.map\<close> accepts, the \<open>m\<close>
  completes and appends exactly the one timestamp \<open>x - t_start\<close> to \<open>beats\<close>; with another
  operand count it fails the assertion, and with an \<open>int\<close> beyond the float range it
  raises \<open>OverflowError\<close>.
\<close>

theorem beat_marker_needs_time_cursor:
  "(23 \<le> linestate s \<and> t_start s = None \<longrightarrow>
      step s (Op ''m'') =
        Inl (case params s of
               [a, b] \<Rightarrow>
                 (case map_point (transform s) (a, b) of
                    Inl e \<Rightarrow> e
                  | Inr xy \<Rightarrow> TypeError)
             | _ \<Rightarrow> AssertionError)
      \<and> (run scan_init pre = Inr s \<longrightarrow>
           scan (pre @ Op ''m'' # rest) =
             Inl (case params s of
                    [a, b] \<Rightarrow>
                      (case map_point (transform s) (a, b) of
                         Inl e \<Rightarrow> e
                       | Inr xy \<Rightarrow> TypeError)
                  | _ \<Rightarrow> AssertionError)))
   \<and> (linestate s0 = 22 \<and> step s0 (Op ''m'') = Inr s1 \<and> run s1 tks = Inr s
        \<and> 23 \<le> linestate s \<longrightarrow>
      (\<exists>t. t_start s = Some t
         \<and> step s (Op ''m'') =
             (case params s of
                [a, b] \<Rightarrow>
                  (case map_point (transform s) (a, b) of
                     Inl e \<Rightarrow> Inl e
                   | Inr (x, y) \<Rightarrow> Inr (s\<lparr>beats := beats s @ [x - t], params := []\<rparr>))
              | _ \<Rightarrow> Inl AssertionError)
         \<and> (\<forall>a b x y. params s = [a, b] \<and> map_point (transform s) (a, b) = Inr (x, y)
               \<longrightarrow> step s (Op ''m'') =
                     Inr (s\<lparr>beats := beats s @ [x - t], params := []\<rparr>))))"
proof -
  have unset: "step s (Op ''m'') =
        Inl (case params s of
               [a, b] \<Rightarrow>
                 (case map_point (transform s) (a, b) of
                    Inl e \<Rightarrow> e
                  | Inr xy \<Rightarrow> TypeError)
             | _ \<Rightarrow> AssertionError)
      \<and> (run scan_init pre = Inr s \<longrightarrow>
           scan (pre @ Op ''m'' # rest) =
             Inl (case params s of
                    [a, b] \<Rightarrow>
                      (case map_point (transform s) (a, b) of
                         Inl e \<Rightarrow> e
                       | Inr xy \<Rightarrow> TypeError)
                  | _ \<Rightarrow> AssertionError))"
    if a: "23 \<le> linestate s \<and> t_start s = None"
  proof -
    from a have st: "step s (Op ''m'') =
        Inl (case params s of
               [a, b] \<Rightarrow>
                 (case map_point (transform s) (a, b) of
                    Inl e \<Rightarrow> e
                  | Inr xy \<Rightarrow> TypeError)
             | _ \<Rightarrow> AssertionError)"
      by (auto simp: operator_def op_m_def split: list.splits sum.splits prod.splits)
    then show ?thesis
      by (simp add: scan_def run_append)
  qed
  have set: "\<exists>t. t_start s = Some t
         \<and> step s (Op ''m'') =
             (case params s of
                [a, b] \<Rightarrow>
                  (case map_point (transform s) (a, b) of
                     Inl e \<Rightarrow> Inl e
                   | Inr (x, y) \<Rightarrow> Inr (s\<lparr>beats := beats s @ [x - t], params := []\<rparr>))
              | _ \<Rightarrow> Inl AssertionError)
         \<and> (\<forall>a b x y. params s = [a, b] \<and> map_point (transform s) (a, b) = Inr (x, y)
               \<longrightarrow> step s (Op ''m'') =
                     Inr (s\<lparr>beats := beats s @ [x - t], params := []\<rparr>))"
    if a: "linestate s0 = 22 \<and> step s0 (Op ''m'') = Inr s1 \<and> run s1 tks = Inr s
        \<and> 23 \<le> linestate s"
  proof -
    from a have "t_start s1 \<noteq> None"
      using trace_move_sets_t_start [of s0 s1] by simp
    with a have "t_start s \<noteq> None"
      using run_t_start [of s1 tks s] by simp
    then obtain t where t: "t_start s = Some t"
      by auto
    with a have m: "step s (Op ''m'') =
             (case params s of
                [a, b] \<Rightarrow>
                  (case map_point (transform s) (a, b) of
                     Inl e \<Rightarrow> Inl e
                   | Inr (x, y) \<Rightarrow> Inr (s\<lparr>beats := beats s @ [x - t], params := []\<rparr>))
              | _ \<Rightarrow> Inl AssertionError)"
      by (simp add: operator_def op_m_def split: list.splits sum.splits prod.splits)
    then have "\<forall>a b x y. params s = [a, b] \<and> map_point (transform s) (a, b) = Inr (x, y)
               \<longrightarrow> step s (Op ''m'') =
                     Inr (s\<lparr>beats := beats s @ [x - t], params := []\<rparr>)"
      by simp
    with t m show ?thesis
      by blast
  qed
  from unset set show ?thesis
    by blast
qed

theorem beat_marker_needs_time_cursor_witness:
  "scan ([Op ''q'', Op ''Q'', Op ''q'', Op ''Q'', Op ''q'', Num (PyFloat 0.6), Op ''w'',
          Num (PyInt 1), Num (PyInt 2)] @ Op ''m'' # [Op ''Q'']) = Inl TypeError
   \<and> (\<exists>s0 s1 s. run scan_init (take 34 example_page) = Inr s0 \<and> linestate s0 = 22
        \<and> step s0 (Op ''m'') = Inr s1
        \<and> run s1 (drop 35 example_page @ [Op ''q'', Num (PyInt 35), Num (PyInt 7)]) = Inr s
        \<and> linestate s = 23
        \<and> step s (Op ''m'') = Inr (s\<lparr>beats := [25], params := []\<rparr>))"
proof -
  let ?pre = "[Op ''q'', Op ''Q'', Op ''q'', Op ''Q'', Op ''q'', Num (PyFloat 0.6), Op ''w'',
          Num (PyInt 1), Num (PyInt 2)]"
  obtain sa where ra: "run scan_init ?pre = Inr sa" and la: "linestate sa = 23"
      and ta: "t_start sa = None" and pa: "params sa = [PyInt 1, PyInt 2]"
      and tr: "transform sa = GraphicsMap_init"
    by (simp add: scan_eval)
  have ma: "map_point (transform sa) (PyInt 1, PyInt 2) = Inr (1, 2)"
    using tr by (simp add: map_point_def GraphicsMap_init_def)
  from beat_marker_needs_time_cursor [of sa ?pre "[Op ''Q'']"] ra la ta pa ma
  have 1: "scan (?pre @ Op ''m'' # [Op ''Q'']) = Inl TypeError"
    by simp
  obtain s0 where p: "run scan_init (take 34 example_page) = Inr s0"
      and l: "linestate s0 = 22" and q: "params s0 = [PyInt 10, PyInt 60]"
      and u: "t_start s0 = None" "subtrace s0 = 0" "origins_trace s0 = [50, 80]"
        "stage s0 = 3" "graphicstate s0 = [GraphicsMap_init, GraphicsMap_init]"
        "beats s0 = []" "transform s0 = GraphicsMap_init"
    by (simp add: example_page_def scan_eval)
  obtain s1 where m: "step s0 (Op ''m'') = Inr s1"
      and v: "linestate s1 = 22" "stage s1 = 3" "subtrace s1 = 0" "origins_trace s1 = [50, 80]"
        "graphicstate s1 = [GraphicsMap_init, GraphicsMap_init]" "t_start s1 = Some 10"
        "beats s1 = []" "params s1 = []" "transform s1 = GraphicsMap_init"
    using l q u by (simp add: scan_eval)
  obtain s where r: "run s1 (drop 35 example_page @ [Op ''q'', Num (PyInt 35), Num (PyInt 7)])
        = Inr s"
      and w: "linestate s = 23" "params s = [PyInt 35, PyInt 7]" "t_start s = Some 10"
        "beats s = []" "transform s = GraphicsMap_init"
    using v by (simp add: example_page_def scan_eval)
  have ms: "map_point (transform s) (PyInt 35, PyInt 7) = Inr (35, 7)"
    using w by (simp add: map_point_def GraphicsMap_init_def)
  from beat_marker_needs_time_cursor [of s _ _ s0 s1] l m r w ms
  have "step s (Op ''m'') = Inr (s\<lparr>beats := [25], params := []\<rparr>)"
    by auto
  with 1 p l m r w show ?thesis
    by blast
qed

subsection \<open>The origin of a subtrace\<close>

text \<open>
  C5 asks that a trace-role \<open>m\<close> or \<open>l\<close> fail when \<open>origins_trace\<close> has no entry at index
  \<open>subtrace\<close>. The code misses the index \<open>-1\<close>, the value \<open>subtrace\<close> starts with. After
  the stream below the role is 22 (21 from \<open>1.5 w\<close>, plus one from the \<open>Q\<close> that closes
  the calibration block), \<open>subtrace\<close> is still \<open>-1\<close>, no subtrace has an origin at that
  index, and \<open>origins_trace\<close> is \<open>[5]\<close>. The \<open>m\<close> that follows does not fail:
  \<open>origins_trace[-1]\<close> is the last element, and the scan returns the amplitude \<open>2 - 5\<close>,
  rescaled.
\<close>

theorem trace_origin_index_wraps_around:
  "run scan_init
     [Op ''q'', Op ''Q'',
      Op ''q'', Num (PyFloat 0.3), Op ''w'', Op ''q'', Op ''Q'',
        Op ''q'', Num (PyInt 0), Num (PyInt 5), Op ''m'', Op ''S'', Op ''Q'',
      Op ''Q'',
      Op ''q'', Num (PyFloat 1.5), Op ''w'', Op ''q'', Op ''Q'']
     = Inr (scan_init\<lparr>stage := 3, level := 1, graphicstate := [GraphicsMap_init],
              linestate := 22, subtrace := - 1, origins_trace := [5]\<rparr>)
   \<and> scan
     [Op ''q'', Op ''Q'',
      Op ''q'', Num (PyFloat 0.3), Op ''w'', Op ''q'', Op ''Q'',
        Op ''q'', Num (PyInt 0), Num (PyInt 5), Op ''m'', Op ''S'', Op ''Q'',
      Op ''Q'',
      Op ''q'', Num (PyFloat 1.5), Op ''w'', Op ''q'', Op ''Q'',
      Num (PyInt 1), Num (PyInt 2), Op ''m'']
     = Inr \<lparr>self_ecg = ([0], [- 3 * (POINTS2MM / V_scale)]), self_beats = []\<rparr>"
  by (simp add: scan_def finalize_def scan_eval)

text \<open>
  At every other missing index the same lookup raises: under role 22, when \<open>subtrace\<close>
  is at least \<open>len(origins_trace)\<close>, or below \<open>-len(origins_trace)\<close> (the index \<open>-1\<close> of the
  empty list), an \<open>m\<close> and an \<open>l\<close> end in \<open>IndexError\<close>, unless an earlier statement of
  the branch raises first.
\<close>

lemma trace_origin_out_of_range_raises:
  assumes "linestate s = 22"
    and "int (length (origins_trace s)) \<le> subtrace s
         \<or> subtrace s < - int (length (origins_trace s))"
  shows "step s (Op ''m'') =
      Inl (case params s of
             [a, b] \<Rightarrow>
               (case map_point (transform s) (a, b) of
                  Inl e \<Rightarrow> e
                | Inr xy \<Rightarrow>
                    if t_start s \<noteq> None \<and> T_width s = None then TypeError
                    else IndexError)
           | _ \<Rightarrow> AssertionError)"
    and "step s (Op ''l'') =
      Inl (case params s of
             [a, b] \<Rightarrow>
               (case map_point (transform s) (a, b) of
                  Inl e \<Rightarrow> e
                | Inr xy \<Rightarrow> if t_start s = None then TypeError else IndexError)
           | _ \<Rightarrow> AssertionError)"
proof -
  have i: "py_index (origins_trace s) (subtrace s) = None"
    using assms(2) by (auto simp: py_index_def)
  have ta: "trace_append y s' = Inl IndexError"
    if "origins_trace s' = origins_trace s" and "subtrace s' = subtrace s" for y s'
    using that i by (simp add: trace_append_def)
  show "step s (Op ''m'') =
      Inl (case params s of
             [a, b] \<Rightarrow>
               (case map_point (transform s) (a, b) of
                  Inl e \<Rightarrow> e
                | Inr xy \<Rightarrow>
                    if t_start s \<noteq> None \<and> T_width s = None then TypeError
                    else IndexError)
           | _ \<Rightarrow> AssertionError)"
    using assms(1)
    by (auto simp: operator_def op_m_def ta
        split: list.splits option.splits sum.splits prod.splits)
  show "step s (Op ''l'') =
      Inl (case params s of
             [a, b] \<Rightarrow>
               (case map_point (transform s) (a, b) of
                  Inl e \<Rightarrow> e
                | Inr xy \<Rightarrow> if t_start s = None then TypeError else IndexError)
           | _ \<Rightarrow> AssertionError)"
    using assms(1)
    by (auto simp: operator_def op_l_def ta
        split: list.splits option.splits sum.splits prod.splits)
qed

subsection \<open>Time across subtraces\<close>

text \<open>
  C1, as stated, fails in its last part. In the scan below \<open>T_width\<close> is 100, the first
  trace-role \<open>m\<close> is at \<open>x = 10\<close> and the \<open>m\<close> of the second subtrace is at \<open>x = 10\<close>, too;
  it takes \<open>t_start\<close> to \<open>-90\<close> and appends 100. The first subtrace has a line to
  \<open>x = 200\<close>, recorded as \<open>200 - 10 = 190\<close>: the times are \<open>[0, 190, 100]\<close>, and 100 is not
  above 190.
\<close>

theorem second_subtrace_time_below_first:
  "run scan_init
     [Op ''q'', Op ''Q'',
      Op ''q'',
        Num (PyFloat 0.4), Op ''w'',
        Op ''q'', Num (PyInt 0), Num (PyInt 0), Op ''m'',
                  Num (PyInt 100), Num (PyInt 0), Op ''l'', Op ''S'', Op ''Q'',
        Num (PyFloat 0.3), Op ''w'',
        Op ''q'', Op ''Q'',
        Op ''q'', Num (PyInt 0), Num (PyInt 50), Op ''m'',
                  Num (PyInt 0), Num (PyInt 80), Op ''m'', Op ''S'', Op ''Q'',
      Op ''Q'',
      Op ''q'',
        Num (PyFloat 0.4), Op ''w'',
        Op ''q'', Num (PyInt 10), Num (PyInt 60), Op ''m'',
                  Num (PyInt 200), Num (PyInt 65), Op ''l'', Op ''S'', Op ''Q'',
        Num (PyFloat 0.4), Op ''w'',
        Op ''q'', Num (PyInt 10), Num (PyInt 90), Op ''m'']
   = Inr \<lparr>stage = 3, level = 2, intext = False, params = [],
          transform = GraphicsMap_init,
          graphicstate = [GraphicsMap_init, GraphicsMap_init], linestate = 22,
          X_min = Some 0, X_max = Some 100, T_width = Some 100, t_start = Some (- 90),
          subtrace = 1, origins_trace = [50, 80], origins_beats = [],
          times_list = [0, 190, 100], trace = [10, 15, 10], beats = []\<rparr>"
  by (simp add: scan_eval)

text \<open>
  While \<open>t_start\<close> is 10, a pass other than a trace-role \<open>m\<close> keeps it, and a trace-role
  \<open>l\<close> records \<open>x - 10\<close>, which is below 100 when \<open>x\<close> is below 110.
\<close>

lemma step_first_subtrace:
  assumes "step s tk = Inr s'" and "t_start s = Some 10"
    and "\<forall>t \<in> set (times_list s). t < 100"
    and "linestate s = 22 \<longrightarrow> tk \<noteq> Op ''m'' \<and>
      (\<forall>c d x y. tk = Op ''l'' \<and> params s = [c, d]
         \<and> map_point (transform s) (c, d) = Inr (x, y) \<longrightarrow> x < 110)"
  shows "t_start s' = Some 10 \<and> (\<forall>t \<in> set (times_list s'). t < 100)"
proof (cases tk)
  case (Num v)
  with assms show ?thesis by auto
next
  case (Op d)
  with assms show ?thesis
    by (auto simp: operator_def op_q_def op_Q_def op_cm_def op_w_def op_m_def op_l_def
        trace_append_def Let_def
        split: if_splits sum.splits list.splits option.splits prod.splits)
qed

lemma run_first_subtrace:
  assumes "run s tks = Inr s'" and "t_start s = Some 10"
    and "\<forall>t \<in> set (times_list s). t < 100"
    and "\<forall>n < length tks. \<forall>sn. run s (take n tks) = Inr sn \<and> linestate sn = 22 \<longrightarrow>
           tks ! n \<noteq> Op ''m'' \<and>
           (\<forall>c d x y. tks ! n = Op ''l'' \<and> params sn = [c, d]
              \<and> map_point (transform sn) (c, d) = Inr (x, y) \<longrightarrow> x < 110)"
  shows "t_start s' = Some 10 \<and> (\<forall>t \<in> set (times_list s'). t < 100)"
  using assms
proof (induction tks arbitrary: s)
  case Nil
  then show ?case by simp
next
  case (Cons tk tks)
  from Cons.prems(1) obtain s1 where s1: "step s tk = Inr s1" and r: "run s1 tks = Inr s'"
    by (auto split: sum.splits)
  from Cons.prems(4) [rule_format, of 0 s]
  have c0: "linestate s = 22 \<longrightarrow> tk \<noteq> Op ''m'' \<and>
      (\<forall>c d x y. tk = Op ''l'' \<and> params s = [c, d]
         \<and> map_point (transform s) (c, d) = Inr (x, y) \<longrightarrow> x < 110)"
    by auto
  from step_first_subtrace [OF s1 Cons.prems(2) Cons.prems(3) c0]
  have t1: "t_start s1 = Some 10" and b1: "\<forall>t \<in> set (times_list s1). t < 100"
    by simp_all
  have h1: "\<forall>n < length tks. \<forall>sn. run s1 (take n tks) = Inr sn \<and> linestate sn = 22 \<longrightarrow>
           tks ! n \<noteq> Op ''m'' \<and>
           (\<forall>c d x y. tks ! n = Op ''l'' \<and> params sn = [c, d]
              \<and> map_point (transform sn) (c, d) = Inr (x, y) \<longrightarrow> x < 110)"
  proof (intro allI impI)
    fix n sn
    assume n: "n < length tks" and a: "run s1 (take n tks) = Inr sn \<and> linestate sn = 22"
    from Cons.prems(4) [rule_format, of "Suc n" sn] n a s1
    show "tks ! n \<noteq> Op ''m'' \<and>
           (\<forall>c d x y. tks ! n = Op ''l'' \<and> params sn = [c, d]
              \<and> map_point (transform sn) (c, d) = Inr (x, y) \<longrightarrow> x < 110)"
      by auto
  qed
  from Cons.IH [OF r t1 b1 h1] show ?case .
qed

text \<open>
  C1, amended: with \<open>T_width = 100\<close> and role 22, the first trace-role \<open>m\<close> (mapped to
  \<open>x = 10\<close>, \<open>t_start\<close> unset, the subtrace's origin recorded) sets \<open>t_start\<close> to 10 and
  appends 0 to \<open>times\<close>. Any tokens scanned after it without an exception, none of them
  a trace-role \<open>m\<close> and every trace-role \<open>l\<close> among them at \<open>x < 110\<close>, leave \<open>t_start\<close>
  at 10 and every recorded time below 100. A trace-role \<open>m\<close> mapped to \<open>x = 10\<close> then
  sets \<open>t_start\<close> to \<open>-90\<close> and appends \<open>10 - (-90) = 100\<close>, which is therefore above every
  time of the first subtrace.
\<close>

theorem trace_times_across_subtraces:
  "(linestate sa = 22 \<and> T_width sa = Some 100 \<and> t_start sa = None
      \<and> params sa = [a, b] \<and> map_point (transform sa) (a, b) = Inr (10, ya)
      \<and> py_index (origins_trace sa) (subtrace sa) = Some oa \<longrightarrow>
      step sa (Op ''m'') =
        Inr (sa\<lparr>t_start := Some 10, times_list := times_list sa @ [0],
                trace := trace sa @ [ya - oa], params := []\<rparr>))
   \<and> (run sb tks = Inr sb' \<and> t_start sb = Some 10
        \<and> (\<forall>t \<in> set (times_list sb). t < 100)
        \<and> (\<forall>n < length tks. \<forall>sn. run sb (take n tks) = Inr sn \<and> linestate sn = 22 \<longrightarrow>
              tks ! n \<noteq> Op ''m'' \<and>
              (\<forall>c d x y. tks ! n = Op ''l'' \<and> params sn = [c, d]
                 \<and> map_point (transform sn) (c, d) = Inr (x, y) \<longrightarrow> x < 110)) \<longrightarrow>
      t_start sb' = Some 10 \<and> (\<forall>t \<in> set (times_list sb'). t < 100))
   \<and> (linestate sc = 22 \<and> T_width sc = Some 100 \<and> t_start sc = Some 10
        \<and> params sc = [e, f] \<and> map_point (transform sc) (e, f) = Inr (10, yc)
        \<and> py_index (origins_trace sc) (subtrace sc) = Some oc \<longrightarrow>
      step sc (Op ''m'') =
        Inr (sc\<lparr>t_start := Some (- 90), times_list := times_list sc @ [100],
                trace := trace sc @ [yc - oc], params := []\<rparr>))"
proof -
  have first: "step sa (Op ''m'') =
        Inr (sa\<lparr>t_start := Some 10, times_list := times_list sa @ [0],
                trace := trace sa @ [ya - oa], params := []\<rparr>)"
    if "linestate sa = 22 \<and> T_width sa = Some 100 \<and> t_start sa = None
      \<and> params sa = [a, b] \<and> map_point (transform sa) (a, b) = Inr (10, ya)
      \<and> py_index (origins_trace sa) (subtrace sa) = Some oa"
    using that by (simp add: operator_def op_m_def trace_append_def)
  have between: "t_start sb' = Some 10 \<and> (\<forall>t \<in> set (times_list sb'). t < 100)"
    if "run sb tks = Inr sb' \<and> t_start sb = Some 10
        \<and> (\<forall>t \<in> set (times_list sb). t < 100)
        \<and> (\<forall>n < length tks. \<forall>sn. run sb (take n tks) = Inr sn \<and> linestate sn = 22 \<longrightarrow>
              tks ! n \<noteq> Op ''m'' \<and>
              (\<forall>c d x y. tks ! n = Op ''l'' \<and> params sn = [c, d]
                 \<and> map_point (transform sn) (c, d) = Inr (x, y) \<longrightarrow> x < 110))"
    using that run_first_subtrace [of sb tks sb'] by blast
  have second: "step sc (Op ''m'') =
        Inr (sc\<lparr>t_start := Some (- 90), times_list := times_list sc @ [100],
                trace := trace sc @ [yc - oc], params := []\<rparr>)"
    if "linestate sc = 22 \<and> T_width sc = Some 100 \<and> t_start sc = Some 10
        \<and> params sc = [e, f] \<and> map_point (transform sc) (e, f) = Inr (10, yc)
        \<and> py_index (origins_trace sc) (subtrace sc) = Some oc"
    using that by (simp add: operator_def op_m_def trace_append_def)
  from first between second show ?thesis
    by blast
qed

theorem trace_times_across_subtraces_witness:
  "\<exists>s0 s1 s2 s3.
     run scan_init (take 34 example_page) = Inr s0
     \<and> linestate s0 = 22 \<and> T_width s0 = Some 100 \<and> t_start s0 = None
     \<and> step s0 (Op ''m'') = Inr s1
     \<and> t_start s1 = Some 10 \<and> times_list s1 = [0]
     \<and> run s1 [Num (PyInt 20), Num (PyInt 65), Op ''l'', Op ''S'', Op ''Q'',
               Num (PyFloat 0.4), Op ''w'', Op ''q'', Num (PyInt 10), Num (PyInt 90)] = Inr s2
     \<and> t_start s2 = Some 10 \<and> times_list s2 = [0, 10]
     \<and> step s2 (Op ''m'') = Inr s3
     \<and> t_start s3 = Some (- 90) \<and> times_list s3 = [0, 10, 100]"
proof -
  let ?tks = "[Num (PyInt 20), Num (PyInt 65), Op ''l'', Op ''S'', Op ''Q'',
               Num (PyFloat 0.4), Op ''w'', Op ''q'', Num (PyInt 10), Num (PyInt 90)]"
  obtain s0 where r0: "run scan_init (take 34 example_page) = Inr s0"
    and f0: "linestate s0 = 22" "T_width s0 = Some 100" "t_start s0 = None"
      "params s0 = [PyInt 10, PyInt 60]" "transform s0 = GraphicsMap_init"
      "origins_trace s0 = [50, 80]" "subtrace s0 = 0" "times_list s0 = []"
      "stage s0 = 3" "graphicstate s0 = [GraphicsMap_init, GraphicsMap_init]"
    by (simp add: example_page_def scan_eval)
  have x0: "map_point (transform s0) (PyInt 10, PyInt 60) = Inr (10, 60)"
    and i0: "py_index (origins_trace s0) (subtrace s0) = Some 50"
    using f0 by (simp_all add: map_point_def GraphicsMap_init_def py_index_def)
  define s1 where "s1 = s0\<lparr>t_start := Some 10, times_list := times_list s0 @ [0],
      trace := trace s0 @ [60 - 50], params := []\<rparr>"
  note c = trace_times_across_subtraces [of s0 "PyInt 10" "PyInt 60" 60 50 s1 ?tks]
  from c f0 x0 i0 have m1: "step s0 (Op ''m'') = Inr s1"
    unfolding s1_def by blast
  have f1: "t_start s1 = Some 10" "times_list s1 = [0]" "linestate s1 = 22"
    "params s1 = []" "transform s1 = GraphicsMap_init" "T_width s1 = Some 100"
    "origins_trace s1 = [50, 80]" "subtrace s1 = 0" "stage s1 = 3"
    "graphicstate s1 = [GraphicsMap_init, GraphicsMap_init]"
    using f0 by (simp_all add: s1_def)
  obtain s2 where r2: "run s1 ?tks = Inr s2"
    and f2: "linestate s2 = 22" "T_width s2 = Some 100" "times_list s2 = [0, 10]"
      "params s2 = [PyInt 10, PyInt 90]" "transform s2 = GraphicsMap_init"
      "origins_trace s2 = [50, 80]" "subtrace s2 = 1"
    using f1 by (simp add: scan_eval)
  have b1: "\<forall>t \<in> set (times_list s1). t < 100"
    using f1 by simp
  have h: "\<forall>n < length ?tks. \<forall>sn. run s1 (take n ?tks) = Inr sn \<and> linestate sn = 22 \<longrightarrow>
              ?tks ! n \<noteq> Op ''m'' \<and>
              (\<forall>c d x y. ?tks ! n = Op ''l'' \<and> params sn = [c, d]
                 \<and> map_point (transform sn) (c, d) = Inr (x, y) \<longrightarrow> x < 110)"
    using f1 by (auto simp: All_less_Suc scan_eval)
  from c [of s2] r2 f1 b1 h have t2: "t_start s2 = Some 10"
    by blast
  have x2: "map_point (transform s2) (PyInt 10, PyInt 90) = Inr (10, 90)"
    and i2: "py_index (origins_trace s2) (subtrace s2) = Some 80"
    using f2 by (simp_all add: map_point_def GraphicsMap_init_def py_index_def)
  define s3 where "s3 = s2\<lparr>t_start := Some (- 90), times_list := times_list s2 @ [100],
      trace := trace s2 @ [90 - 80], params := []\<rparr>"
  from trace_times_across_subtraces [of _ _ _ _ _ _ _ _ s2 "PyInt 10" "PyInt 90" 90 80]
    f2 t2 x2 i2
  have m3: "step s2 (Op ''m'') = Inr s3"
    unfolding s3_def by blast
  have f3: "t_start s3 = Some (- 90)" "times_list s3 = [0, 10, 100]"
    using f2 by (simp_all add: s3_def)
  from r0 f0 m1 f1 r2 t2 f2 m3 f3 show ?thesis
    by blast
qed

end
